theory Spec2Isabelle
  imports Main "HOL-Library.AList"
begin

section \<open>Numbers\<close>

text \<open>
  The calculator works on JavaScript numbers. Every quantity it handles is a level, a
  rank or a material count, so a number is modelled as an integer or as \<open>NaN\<close>, the value
  that unary plus gives to a field it cannot convert. Fractions, infinities and the
  rounding of doubles beyond \<open>2^53\<close> are outside this model.
\<close>

datatype jsnum = NaN | Num int

text \<open>The relational operators: a comparison with \<open>NaN\<close> on either side is false.\<close>

fun jle :: "jsnum \<Rightarrow> jsnum \<Rightarrow> bool" where
  "jle (Num a) (Num b) = (a \<le> b)"
| "jle _ _ = False"

fun jlt :: "jsnum \<Rightarrow> jsnum \<Rightarrow> bool" where
  "jlt (Num a) (Num b) = (a < b)"
| "jlt _ _ = False"

definition jge :: "jsnum \<Rightarrow> jsnum \<Rightarrow> bool" where
  "jge a b = jle b a"

definition jgt :: "jsnum \<Rightarrow> jsnum \<Rightarrow> bool" where
  "jgt a b = jlt b a"

text \<open>
  \<open>x || 0\<close> on a number: the falsy numbers \<open>NaN\<close> and \<open>0\<close> give \<open>0\<close>, every other number
  gives itself. The result is never \<open>NaN\<close>, so it is an integer.
\<close>

fun or0 :: "jsnum \<Rightarrow> int" where
  "or0 NaN = 0"
| "or0 (Num n) = (if n = 0 then 0 else n)"

section \<open>Level cost (segment totals)\<close>

record LevelCostSegment =
  from_level :: int
  to_level :: int
  total_xp :: int
  total_mora :: int
  hero_wit :: int

definition LEVEL_COSTS :: "LevelCostSegment list" where
  "LEVEL_COSTS =
    [\<lparr>from_level = 1, to_level = 20, total_xp = 120175, total_mora = 28000, hero_wit = 7\<rparr>,
     \<lparr>from_level = 20, to_level = 40, total_xp = 578325, total_mora = 112000, hero_wit = 28\<rparr>,
     \<lparr>from_level = 40, to_level = 50, total_xp = 573100, total_mora = 116000, hero_wit = 29\<rparr>,
     \<lparr>from_level = 50, to_level = 60, total_xp = 859525, total_mora = 172000, hero_wit = 43\<rparr>,
     \<lparr>from_level = 60, to_level = 70, total_xp = 1196525, total_mora = 240000, hero_wit = 60\<rparr>,
     \<lparr>from_level = 70, to_level = 80, total_xp = 1611875, total_mora = 320000, hero_wit = 80\<rparr>,
     \<lparr>from_level = 80, to_level = 90, total_xp = 3423125, total_mora = 688000, hero_wit = 172\<rparr>]"

definition LEVEL_ANCHORS :: "int list" where
  "LEVEL_ANCHORS = [1, 20, 40, 50, 60, 70, 80, 90]"

text \<open>The result \<open>{ xp, mora, hero }\<close> of \<open>calcLevelCost\<close>.\<close>

record level_cost =
  l_xp :: int
  l_mora :: int
  l_hero :: int

text \<open>
  \<open>LEVEL_ANCHORS.includes(v)\<close>: the anchors are numbers other than \<open>NaN\<close>, so \<open>NaN\<close> is
  never found.
\<close>

fun includes_num :: "int list \<Rightarrow> jsnum \<Rightarrow> bool" where
  "includes_num xs NaN = False"
| "includes_num xs (Num n) = (n \<in> set xs)"

text \<open>
  \<open>c = includes(curr) ? curr : reduce((a,b) => (b <= curr ? b : a), 1)\<close> and
  \<open>t = includes(target) ? target : reduce((a,b) => (b >= target ? Math.min(a,b) : a), 90)\<close>;
  \<open>reduce\<close> with an initial value is a left fold.
\<close>

definition clip_floor :: "jsnum \<Rightarrow> jsnum" where
  "clip_floor cur =
    (if includes_num LEVEL_ANCHORS cur then cur
     else Num (foldl (\<lambda>a b. if jle (Num b) cur then b else a) 1 LEVEL_ANCHORS))"

definition clip_ceiling :: "jsnum \<Rightarrow> jsnum" where
  "clip_ceiling target =
    (if includes_num LEVEL_ANCHORS target then target
     else Num (foldl (\<lambda>a b. if jge (Num b) target then min a b else a) 90 LEVEL_ANCHORS))"

text \<open>The loop over the rows of the table, with the three running sums as its state.\<close>

fun level_loop :: "jsnum \<Rightarrow> jsnum \<Rightarrow> LevelCostSegment list \<Rightarrow> level_cost \<Rightarrow> level_cost" where
  "level_loop c t [] acc = acc"
| "level_loop c t (row # rows) acc =
    level_loop c t rows
      (if jgt (Num (to_level row)) c \<and> jlt (Num (from_level row)) t
       then \<lparr>l_xp = l_xp acc + total_xp row,
             l_mora = l_mora acc + total_mora row,
             l_hero = l_hero acc + hero_wit row\<rparr>
       else acc)"

definition calcLevelCost :: "jsnum \<Rightarrow> jsnum \<Rightarrow> level_cost" where
  "calcLevelCost cur target =
    (if jle target cur then \<lparr>l_xp = 0, l_mora = 0, l_hero = 0\<rparr>
     else level_loop (clip_floor cur) (clip_ceiling target) LEVEL_COSTS
            \<lparr>l_xp = 0, l_mora = 0, l_hero = 0\<rparr>)"

text \<open>
  The level cost as the specification words it: the clipped floor is the largest anchor
  at or below the current level (1 when there is none), the clipped ceiling is the smallest anchor
  at or above the target level (90 when there is none), and the cost is the sum over the
  segments that overlap the open interval between the two.
\<close>

definition spec_clippedFloor :: "int \<Rightarrow> int" where
  "spec_clippedFloor cur =
    (let below = filter (\<lambda>a. a \<le> cur) LEVEL_ANCHORS
     in if below = [] then 1 else Max (set below))"

definition spec_clippedCeiling :: "int \<Rightarrow> int" where
  "spec_clippedCeiling target =
    (let above = filter (\<lambda>a. target \<le> a) LEVEL_ANCHORS
     in if above = [] then 90 else Min (set above))"

definition spec_segments :: "int \<Rightarrow> int \<Rightarrow> LevelCostSegment list" where
  "spec_segments cur target =
    filter (\<lambda>row. spec_clippedFloor cur < to_level row \<and> from_level row < spec_clippedCeiling target)
      LEVEL_COSTS"

section \<open>Talent cost (steps of the cost table)\<close>

text \<open>
  A step of \<open>TALENT_COSTS\<close>. Each field is the result of a unary plus (see
  \<open>normalize_row\<close> below), so it is a number and may be \<open>NaN\<close>.
\<close>

record TalentStep =
  step_from :: jsnum
  step_to :: jsnum
  book_low :: jsnum
  book_mid :: jsnum
  book_high :: jsnum
  step_mora :: jsnum
  step_crown :: jsnum

record books =
  low :: int
  mid :: int
  high :: int

text \<open>The result \<open>{ mora, crown, books }\<close> of \<open>calcTalentCost\<close>.\<close>

record talent_cost =
  t_mora :: int
  t_crown :: int
  t_books :: books

definition zero_talent_cost :: talent_cost where
  "zero_talent_cost = \<lparr>t_mora = 0, t_crown = 0, t_books = \<lparr>low = 0, mid = 0, high = 0\<rparr>\<rparr>"

fun talent_loop :: "jsnum \<Rightarrow> jsnum \<Rightarrow> TalentStep list \<Rightarrow> talent_cost \<Rightarrow> talent_cost" where
  "talent_loop f t [] out = out"
| "talent_loop f t (step # steps) out =
    talent_loop f t steps
      (if jge (step_from step) f \<and> jle (step_to step) t
       then \<lparr>t_mora = t_mora out + or0 (step_mora step),
             t_crown = t_crown out + or0 (step_crown step),
             t_books = \<lparr>low = low (t_books out) + or0 (book_low step),
                        mid = mid (t_books out) + or0 (book_mid step),
                        high = high (t_books out) + or0 (book_high step)\<rparr>\<rparr>
       else out)"

text \<open>The table \<open>TALENT_COSTS\<close> is loaded at start-up; here it is the first argument.\<close>

definition calcTalentCost :: "TalentStep list \<Rightarrow> jsnum \<Rightarrow> jsnum \<Rightarrow> talent_cost" where
  "calcTalentCost TALENT_COSTS f t =
    (if jle t f then zero_talent_cost else talent_loop f t TALENT_COSTS zero_talent_cost)"

text \<open>The containment test of the loop, for stating which steps are counted.\<close>

definition step_contained :: "jsnum \<Rightarrow> jsnum \<Rightarrow> TalentStep \<Rightarrow> bool" where
  "step_contained f t step = (jge (step_from step) f \<and> jle (step_to step) t)"

text \<open>Three rows of a cost table, for the concrete instances below.\<close>

definition sample_steps :: "TalentStep list" where
  "sample_steps =
     [\<lparr>step_from = Num 1, step_to = Num 2, book_low = Num 3, book_mid = Num 0, book_high = Num 0,
       step_mora = Num 12500, step_crown = Num 0\<rparr>,
      \<lparr>step_from = Num 2, step_to = Num 3, book_low = Num 0, book_mid = Num 2, book_high = Num 0,
       step_mora = Num 17500, step_crown = Num 0\<rparr>,
      \<lparr>step_from = Num 9, step_to = Num 10, book_low = Num 0, book_mid = Num 0, book_high = Num 16,
       step_mora = Num 700000, step_crown = Num 1\<rparr>]"

section \<open>Series descriptors and working-list entries\<close>

record tier =
  tier_key :: string
  label_kr :: string
  tier_image :: string

record tiers =
  tier_low :: tier
  tier_mid :: tier
  tier_high :: tier

record talent_book =
  tb_key :: string
  tb_name_kr :: string
  tb_image :: string
  tb_tiers :: tiers

text \<open>An item of \<open>appState.list\<close>, as the add button builds it.\<close>

record entry =
  uid :: string
  char_id :: string
  char_name :: string
  element :: string
  char_image :: string
  levelCurrent :: jsnum
  levelTarget :: jsnum
  naCurrent :: jsnum
  naTarget :: jsnum
  skillCurrent :: jsnum
  skillTarget :: jsnum
  burstCurrent :: jsnum
  burstTarget :: jsnum
  talent_book :: "talent_book option"
  region :: string

section \<open>Cost of one character\<close>

record CostTotals =
  mora :: int
  xp :: int
  heroBooks :: int
  c_books :: books
  crown :: int

definition calcCharacterCost :: "TalentStep list \<Rightarrow> entry \<Rightarrow> CostTotals" where
  "calcCharacterCost TALENT_COSTS s =
    (let lvl = calcLevelCost (levelCurrent s) (levelTarget s);
         tNA = calcTalentCost TALENT_COSTS (naCurrent s) (naTarget s);
         tSK = calcTalentCost TALENT_COSTS (skillCurrent s) (skillTarget s);
         tBR = calcTalentCost TALENT_COSTS (burstCurrent s) (burstTarget s);
         bks = \<lparr>low = or0 (Num (low (t_books tNA))) + or0 (Num (low (t_books tSK)))
                      + or0 (Num (low (t_books tBR))),
                mid = or0 (Num (mid (t_books tNA))) + or0 (Num (mid (t_books tSK)))
                      + or0 (Num (mid (t_books tBR))),
                high = or0 (Num (high (t_books tNA))) + or0 (Num (high (t_books tSK)))
                      + or0 (Num (high (t_books tBR)))\<rparr>;
         crn = or0 (Num (t_crown tNA)) + or0 (Num (t_crown tSK)) + or0 (Num (t_crown tBR))
     in \<lparr>mora = l_mora lvl + t_mora tNA + t_mora tSK + t_mora tBR,
         xp = l_xp lvl, heroBooks = l_hero lvl, c_books = bks, crown = crn\<rparr>)"

section \<open>Totals over the working list\<close>

record sums =
  s_mora :: int
  s_xp :: int
  s_hero :: int
  s_books :: books
  s_crown :: int

record series_sums =
  teachings :: int
  guide :: int
  philosophies :: int

record series_icons =
  icon_teachings :: string
  icon_guide :: string
  icon_philosophies :: string

record series_total =
  st_key :: string
  nameKr :: string
  st_region :: string
  st_sums :: series_sums
  icons :: series_icons

text \<open>
  \<open>seriesTotals\<close> is an object with string keys: an association list in the order in
  which the keys were first stored. Every key holds \<open>@@\<close>, so none is an array index
  and none names a member of \<open>Object.prototype\<close>.
\<close>

type_synonym series_totals = "(string \<times> series_total) list"

text \<open>\<open>s || ''\<close> on a string.\<close>

definition or_empty :: "string \<Rightarrow> string" where
  "or_empty s = (if s = [] then [] else s)"

definition sKey_of :: "talent_book \<Rightarrow> string \<Rightarrow> string" where
  "sKey_of tb r = tb_key tb @ ''@@'' @ tb_name_kr tb @ ''@@'' @ or_empty r"

definition new_series :: "talent_book \<Rightarrow> string \<Rightarrow> series_total" where
  "new_series tb r =
    \<lparr>st_key = tb_key tb, nameKr = tb_name_kr tb, st_region = or_empty r,
     st_sums = \<lparr>teachings = 0, guide = 0, philosophies = 0\<rparr>,
     icons = \<lparr>icon_teachings = tier_image (tier_low (tb_tiers tb)),
              icon_guide = tier_image (tier_mid (tb_tiers tb)),
              icon_philosophies = tier_image (tier_high (tb_tiers tb))\<rparr>\<rparr>"

definition add_books :: "books \<Rightarrow> series_total \<Rightarrow> series_total" where
  "add_books b e =
    e\<lparr>st_sums := \<lparr>teachings = teachings (st_sums e) + or0 (Num (low b)),
                   guide = guide (st_sums e) + or0 (Num (mid b)),
                   philosophies = philosophies (st_sums e) + or0 (Num (high b))\<rparr>\<rparr>"

text \<open>The part of the loop body under \<open>if (it.talent_book)\<close>.\<close>

definition series_step :: "books \<Rightarrow> series_totals \<Rightarrow> entry \<Rightarrow> series_totals" where
  "series_step b st it =
    (case talent_book it of
       None \<Rightarrow> st
     | Some tb \<Rightarrow>
         (let sKey = sKey_of tb (region it);
              st1 = (if map_of st sKey = None
                     then AList.update sKey (new_series tb (region it)) st else st)
          in AList.map_entry sKey (add_books b) st1))"

definition totals_step :: "TalentStep list \<Rightarrow> sums \<times> series_totals \<Rightarrow> entry \<Rightarrow> sums \<times> series_totals" where
  "totals_step TALENT_COSTS state it =
    (let c = calcCharacterCost TALENT_COSTS it;
         sm = fst state
     in (\<lparr>s_mora = s_mora sm + mora c, s_xp = s_xp sm + xp c, s_hero = s_hero sm + heroBooks c,
          s_books = \<lparr>low = low (s_books sm) + or0 (Num (low (c_books c))),
                     mid = mid (s_books sm) + or0 (Num (mid (c_books c))),
                     high = high (s_books sm) + or0 (Num (high (c_books c)))\<rparr>,
          s_crown = s_crown sm + or0 (Num (crown c))\<rparr>,
         series_step (c_books c) (snd state) it))"

definition zero_sums :: sums where
  "zero_sums = \<lparr>s_mora = 0, s_xp = 0, s_hero = 0,
                s_books = \<lparr>low = 0, mid = 0, high = 0\<rparr>, s_crown = 0\<rparr>"

text \<open>
  \<open>refreshTotals\<close> reads \<open>appState.list\<close> and writes the page; here the list is an
  argument and the result is the pair of the global sums and the series object that
  it hands to the rendering.
\<close>

definition refreshTotals :: "TalentStep list \<Rightarrow> entry list \<Rightarrow> sums \<times> series_totals" where
  "refreshTotals TALENT_COSTS lst = foldl (totals_step TALENT_COSTS) (zero_sums, []) lst"

text \<open>
  The series object as the specification words it: the bucket of a key exists when
  some entry with a series has that key; it carries the identity and icons of the
  first such entry and the sums of the books of all of them.
\<close>

definition in_series :: "string \<Rightarrow> entry \<Rightarrow> bool" where
  "in_series k it = (case talent_book it of None \<Rightarrow> False | Some tb \<Rightarrow> sKey_of tb (region it) = k)"

definition spec_series :: "TalentStep list \<Rightarrow> entry list \<Rightarrow> string \<Rightarrow> series_total option" where
  "spec_series TALENT_COSTS lst k =
    (case filter (in_series k) lst of
       [] \<Rightarrow> None
     | it # its \<Rightarrow>
         map_option
           (\<lambda>tb. (new_series tb (region it))
             \<lparr>st_sums :=
                \<lparr>teachings = sum_list (map (\<lambda>e. low (c_books (calcCharacterCost TALENT_COSTS e))) (it # its)),
                 guide = sum_list (map (\<lambda>e. mid (c_books (calcCharacterCost TALENT_COSTS e))) (it # its)),
                 philosophies = sum_list (map (\<lambda>e. high (c_books (calcCharacterCost TALENT_COSTS e))) (it # its))\<rparr>\<rparr>)
           (talent_book it))"

section \<open>Day and region normalization, series mapping\<close>

text \<open>
  Strings are byte strings: ASCII as it stands, the Korean labels by their UTF-8 bytes
  as in the source file. \<open>trim\<close> and \<open>toLowerCase\<close> are modelled on ASCII (white space
  is tab, line feed, vertical tab, form feed, carriage return and space; the letters
  \<open>A\<close> to \<open>Z\<close> are lowered); other bytes are left as they are.
\<close>

definition is_space :: "char \<Rightarrow> bool" where
  "is_space c = (of_char c \<in> {9, 10, 11, 12, 13, 32 :: nat})"

definition trim :: "string \<Rightarrow> string" where
  "trim s = rev (dropWhile is_space (rev (dropWhile is_space s)))"

definition lower_char :: "char \<Rightarrow> char" where
  "lower_char c = (let n = of_char c :: nat in if 65 \<le> n \<and> n \<le> 90 then char_of (n + 32) else c)"

definition toLowerCase :: "string \<Rightarrow> string" where
  "toLowerCase s = map lower_char s"

definition DAY_ALIAS :: "(string \<times> string) list" where
  "DAY_ALIAS =
    [(''mon'', ''mon''), (''monday'', ''mon''), (''m'', ''mon''),
     (''tue'', ''tue''), (''tuesday'', ''tue''), (''t'', ''tue''),
     (''wed'', ''wed''), (''wednesday'', ''wed''), (''wen'', ''wed''),
     (''w'', ''wed''), (''thu'', ''thu''), (''thursday'', ''thu''),
     (''th'', ''thu''), (''fri'', ''fri''), (''friday'', ''fri''),
     (''f'', ''fri''), (''sat'', ''sat''), (''saturday'', ''sat''),
     (''s'', ''sat''), (''sun'', ''sun''), (''sunday'', ''sun'')]"

definition REGION_ALIAS :: "(string \<times> string) list" where
  "REGION_ALIAS =
    [(''mond'', ''mond''), (''mondstadt'', ''mond''), (''liyue'', ''liyue''),
     (''inazma'', ''inazuma''), (''inazuma'', ''inazuma''), (''sumeru'', ''sumeru''),
     (''fontaine'', ''fontaine''), (''natlan'', ''natlan'')]"

text \<open>Region and day to the key and the label of the series.\<close>

definition TALENT_BOOKS :: "(string \<times> (string \<times> string \<times> string) list) list" where
  "TALENT_BOOKS =
    [(''mond'',
       [(''mon'', (''freedom'', [CHR 0xEC, CHR 0x9E, CHR 0x90, CHR 0xEC, CHR 0x9C, CHR 0xA0])),
        (''tue'', (''resistance'', [CHR 0xED, CHR 0x88, CHR 0xAC, CHR 0xEC, CHR 0x9F, CHR 0x81])),
        (''wed'', (''ballad'', [CHR 0xEC, CHR 0x8B, CHR 0x9C]))]),
     (''liyue'',
       [(''mon'', (''prosperity'', [CHR 0xEB, CHR 0xB2, CHR 0x88, CHR 0xEC, CHR 0x98, CHR 0x81])),
        (''tue'', (''diligence'', [CHR 0xEA, CHR 0xB7, CHR 0xBC, CHR 0xEB, CHR 0xA9, CHR 0xB4])),
        (''wed'', (''gold'', [CHR 0xED, CHR 0x99, CHR 0xA9, CHR 0xEA, CHR 0xB8, CHR 0x88]))]),
     (''inazuma'',
       [(''mon'', (''transience'', [CHR 0xEB, CHR 0xB6, CHR 0x80, CHR 0xEC, CHR 0x84, CHR 0xB8])),
        (''tue'', (''elegance'', [CHR 0xED, CHR 0x92, CHR 0x8D, CHR 0xEC, CHR 0x95, CHR 0x84])),
        (''wed'', (''light'', [CHR 0xEC, CHR 0xB2, CHR 0x9C, CHR 0xEA, CHR 0xB4, CHR 0x91]))]),
     (''sumeru'',
       [(''mon'', (''admonition'', [CHR 0xED, CHR 0x9B, CHR 0x88, CHR 0xEA, CHR 0xB3, CHR 0x84])),
        (''tue'', (''ingenuity'', [CHR 0xEC, CHR 0xB0, CHR 0xBD, CHR 0xEC, CHR 0x9D, CHR 0x98])),
        (''wed'', (''praxis'', [CHR 0xEC, CHR 0x8B, CHR 0xA4, CHR 0xEC, CHR 0xB2, CHR 0x9C]))]),
     (''fontaine'',
       [(''mon'', (''equity'', [CHR 0xEA, CHR 0xB3, CHR 0xB5, CHR 0xEC, CHR 0xA0, CHR 0x95])),
        (''tue'', (''judgment'', [CHR 0xEC, CHR 0x8B, CHR 0xAC, CHR 0xED, CHR 0x8C, CHR 0x90])),
        (''wed'', (''order'', [CHR 0xEC, CHR 0xA7, CHR 0x88, CHR 0xEC, CHR 0x84, CHR 0x9C]))]),
     (''natlan'',
       [(''mon'', (''conflict'', [CHR ''('', CHR 0xEC, CHR 0x98, CHR 0x88, CHR 0xEC, CHR 0x8B, CHR 0x9C, CHR ''1'', CHR '')''])),
        (''tue'', (''war'', [CHR ''('', CHR 0xEC, CHR 0x98, CHR 0x88, CHR 0xEC, CHR 0x8B, CHR 0x9C, CHR ''2'', CHR '')''])),
        (''wed'', (''rule'', [CHR ''('', CHR 0xEC, CHR 0x98, CHR 0x88, CHR 0xEC, CHR 0x8B, CHR 0x9C, CHR ''3'', CHR '')'']))])]"

text \<open>
  The three tables are object literals, so a property read that finds no own property
  goes on to \<open>Object.prototype\<close>, whose members are functions (and, for \<open>__proto__\<close>, the
  prototype object itself): truthy values that are not strings.
\<close>

definition OBJECT_PROTOTYPE_KEYS :: "string list" where
  "OBJECT_PROTOTYPE_KEYS =
    [''constructor'', ''__defineGetter__'', ''__defineSetter__'', ''hasOwnProperty'',
     ''__lookupGetter__'', ''__lookupSetter__'', ''isPrototypeOf'', ''propertyIsEnumerable'',
     ''toString'', ''valueOf'', ''__proto__'', ''toLocaleString'']"

datatype 'a property = Own 'a | Inherited string | Undefined

definition obj_get :: "(string \<times> 'a) list \<Rightarrow> string \<Rightarrow> 'a property" where
  "obj_get obj k =
    (case map_of obj k of
       Some v \<Rightarrow> Own v
     | None \<Rightarrow> if k \<in> set OBJECT_PROTOTYPE_KEYS then Inherited k else Undefined)"

text \<open>A normalized region or day: a string, or a member of the prototype.\<close>

datatype jsval = Str string | Member string

fun truthy :: "jsval \<Rightarrow> bool" where
  "truthy (Str s) = (s \<noteq> [])"
| "truthy (Member k) = True"

text \<open>
  The string a value becomes as a property key or inside a template literal. The text
  of a built-in function is left to the engine; every engine writes the word
  \<open>function\<close>, a space and the name first.
\<close>

fun to_key :: "jsval \<Rightarrow> string" where
  "to_key (Str s) = s"
| "to_key (Member k) =
    (if k = ''__proto__'' then ''[object Object]''
     else ''function '' @ (if k = ''constructor'' then ''Object'' else k) @ ''() { [native code] }'')"

text \<open>\<open>TABLE[raw] || raw || ''\<close>.\<close>

definition alias_of :: "(string \<times> string) list \<Rightarrow> string \<Rightarrow> jsval" where
  "alias_of tbl raw =
    (case obj_get tbl raw of
       Own v \<Rightarrow> if v \<noteq> [] then Str v else if raw \<noteq> [] then Str raw else Str []
     | Inherited k \<Rightarrow> Member k
     | Undefined \<Rightarrow> if raw \<noteq> [] then Str raw else Str [])"

definition IMAGE_SERIES :: "string \<Rightarrow> string \<Rightarrow> string" where
  "IMAGE_SERIES r seriesKey = ''images/books/'' @ r @ ''_'' @ seriesKey @ ''.png''"

definition IMAGE_SERIES_TIER :: "string \<Rightarrow> string \<Rightarrow> string \<Rightarrow> string" where
  "IMAGE_SERIES_TIER r seriesKey tierKey =
    ''images/books/'' @ r @ ''_'' @ seriesKey @ ''_'' @ tierKey @ ''.png''"

text \<open>
  \<open>(c.region || '').toString().trim().toLowerCase()\<close>, for a field that is a string or is
  missing (or \<open>null\<close>).
\<close>

definition raw_key :: "string option \<Rightarrow> string" where
  "raw_key field = toLowerCase (trim (case field of None \<Rightarrow> [] | Some s \<Rightarrow> or_empty s))"

definition make_book :: "string \<Rightarrow> string \<Rightarrow> string \<Rightarrow> talent_book" where
  "make_book r k name =
    \<lparr>tb_key = k, tb_name_kr = name, tb_image = IMAGE_SERIES r k,
     tb_tiers =
       \<lparr>tier_low = \<lparr>tier_key = ''teachings'', label_kr = [CHR 0xEA, CHR 0xB0, CHR 0x80, CHR 0xEB, CHR 0xA5, CHR 0xB4, CHR 0xEC, CHR 0xB9, CHR 0xA8],
                    tier_image = IMAGE_SERIES_TIER r k ''teachings''\<rparr>,
        tier_mid = \<lparr>tier_key = ''guide'', label_kr = [CHR 0xEC, CHR 0x9D, CHR 0xB8, CHR 0xEB, CHR 0x8F, CHR 0x84],
                    tier_image = IMAGE_SERIES_TIER r k ''guide''\<rparr>,
        tier_high = \<lparr>tier_key = ''philosophies'', label_kr = [CHR 0xEC, CHR 0xB2, CHR 0xA0, CHR 0xED, CHR 0x95, CHR 0x99],
                     tier_image = IMAGE_SERIES_TIER r k ''philosophies''\<rparr>\<rparr>\<rparr>"

text \<open>
  The series of a character of the roster, from its \<open>region\<close> and \<open>day\<close> fields:
  \<open>if (region && day && TALENT_BOOKS[region] && TALENT_BOOKS[region][day])\<close>. A read
  that lands on the prototype does not occur here (\<open>to_key_alias_own\<close> below), and
  those two branches give no series.
\<close>

definition talent_book_of :: "string option \<Rightarrow> string option \<Rightarrow> talent_book option" where
  "talent_book_of c_region c_day =
    (let regionRaw = raw_key c_region;
         dayRaw = raw_key c_day;
         r = alias_of REGION_ALIAS regionRaw;
         d = alias_of DAY_ALIAS dayRaw
     in if truthy r \<and> truthy d then
          (case obj_get TALENT_BOOKS (to_key r) of
             Own days \<Rightarrow>
               (case obj_get days (to_key d) of
                  Own (k, name) \<Rightarrow> Some (make_book (to_key r) k name)
                | Inherited m \<Rightarrow> None
                | Undefined \<Rightarrow> None)
           | Inherited m \<Rightarrow> None
           | Undefined \<Rightarrow> None)
        else None)"

section \<open>Rows of the cost table\<close>

text \<open>
  A field of a raw row of \<open>book_cost.json\<close>: missing, or a JSON scalar. Arrays and
  objects as field values are outside the model.
\<close>

datatype raw = RMissing | RNull | RBool bool | RNum int | RStr string

record raw_row =
  r_from :: raw
  r_to :: raw
  r_book_low :: raw
  r_book_mid :: raw
  r_book_high :: raw
  r_mora :: raw
  r_crown :: raw

definition is_digit :: "char \<Rightarrow> bool" where
  "is_digit c = (48 \<le> (of_char c :: nat) \<and> (of_char c :: nat) \<le> 57)"

definition digits_value :: "string \<Rightarrow> int" where
  "digits_value ds = foldl (\<lambda>a c. 10 * a + (int (of_char c) - 48)) 0 ds"

text \<open>
  The number a string denotes: white space around it is dropped, the empty string is
  0 and a decimal integer with an optional sign is its value. Every other string is
  \<open>NaN\<close> here; that is what JavaScript gives to a string that is no numeric literal,
  while its literals with a fraction, an exponent or a radix prefix denote numbers
  that this model leaves out.
\<close>

definition StringToNumber :: "string \<Rightarrow> jsnum" where
  "StringToNumber s =
    (let t = trim s in
     if t = [] then Num 0
     else if list_all is_digit t then Num (digits_value t)
     else if hd t = CHR ''+'' \<and> tl t \<noteq> [] \<and> list_all is_digit (tl t) then Num (digits_value (tl t))
     else if hd t = CHR ''-'' \<and> tl t \<noteq> [] \<and> list_all is_digit (tl t) then Num (- digits_value (tl t))
     else NaN)"

text \<open>Unary plus.\<close>

fun ToNumber :: "raw \<Rightarrow> jsnum" where
  "ToNumber RMissing = NaN"
| "ToNumber RNull = Num 0"
| "ToNumber (RBool b) = Num (if b then 1 else 0)"
| "ToNumber (RNum n) = Num n"
| "ToNumber (RStr s) = StringToNumber s"

fun raw_truthy :: "raw \<Rightarrow> bool" where
  "raw_truthy RMissing = False"
| "raw_truthy RNull = False"
| "raw_truthy (RBool b) = b"
| "raw_truthy (RNum n) = (n \<noteq> 0)"
| "raw_truthy (RStr s) = (s \<noteq> [])"

text \<open>\<open>v || 0\<close> on a raw field.\<close>

definition raw_or0 :: "raw \<Rightarrow> raw" where
  "raw_or0 v = (if raw_truthy v then v else RNum 0)"

text \<open>
  The body of \<open>(bookCost||[]).map(r => ...)\<close>: \<open>from\<close> and \<open>to\<close> are converted as they
  are, the five cost fields after \<open>|| 0\<close>.
\<close>

definition normalize_row :: "raw_row \<Rightarrow> TalentStep" where
  "normalize_row r =
    \<lparr>step_from = ToNumber (r_from r), step_to = ToNumber (r_to r),
     book_low = ToNumber (raw_or0 (r_book_low r)),
     book_mid = ToNumber (raw_or0 (r_book_mid r)),
     book_high = ToNumber (raw_or0 (r_book_high r)),
     step_mora = ToNumber (raw_or0 (r_mora r)),
     step_crown = ToNumber (raw_or0 (r_crown r))\<rparr>"

definition load_talent_costs :: "raw_row list \<Rightarrow> TalentStep list" where
  "load_talent_costs bookCost = map normalize_row bookCost"

section \<open>Concrete inputs\<close>

text \<open>The label of the Monday series of Mondstadt, in UTF-8.\<close>

definition name_freedom :: string where
  "name_freedom = [CHR 0xEC, CHR 0x9E, CHR 0x90, CHR 0xEC, CHR 0x9C, CHR 0xA0]"

text \<open>
  Two items as the add button makes them, except for the ranks: one of a character
  whose region and day name a series, one of a character without either.
\<close>

definition sample_entry :: entry where
  "sample_entry =
    \<lparr>uid = ''amber-1'', char_id = ''amber'', char_name = ''Amber'', element = ''Pyro'',
     char_image = ''images/amber.png'',
     levelCurrent = Num 1, levelTarget = Num 90, naCurrent = Num 1, naTarget = Num 3,
     skillCurrent = Num 1, skillTarget = Num 2, burstCurrent = Num 9, burstTarget = Num 10,
     talent_book = talent_book_of (Some ''Mondstadt'') (Some ''Monday''), region = ''mond''\<rparr>"

definition sample_plain :: entry where
  "sample_plain =
    \<lparr>uid = ''aloy-2'', char_id = ''aloy'', char_name = ''Aloy'', element = ''Cryo'',
     char_image = ''images/aloy.png'',
     levelCurrent = Num 1, levelTarget = Num 90, naCurrent = Num 1, naTarget = Num 3,
     skillCurrent = Num 1, skillTarget = Num 2, burstCurrent = Num 9, burstTarget = Num 10,
     talent_book = talent_book_of None None, region = []\<rparr>"




section \<open>Properties of the level cost\<close>

lemma level_loop_sums:
  "level_loop c t rows acc =
    (let hit = filter (\<lambda>row. jgt (Num (to_level row)) c \<and> jlt (Num (from_level row)) t) rows
     in \<lparr>l_xp = l_xp acc + sum_list (map total_xp hit),
         l_mora = l_mora acc + sum_list (map total_mora hit),
         l_hero = l_hero acc + sum_list (map hero_wit hit)\<rparr>)"
  by (induction rows arbitrary: acc) (simp_all add: Let_def)

lemma clip_floor_spec: "clip_floor (Num cur) = Num (spec_clippedFloor cur)"
proof -
  consider "cur < 1" | "1 \<le> cur \<and> cur < 20" | "20 \<le> cur \<and> cur < 40" | "40 \<le> cur \<and> cur < 50"
    | "50 \<le> cur \<and> cur < 60" | "60 \<le> cur \<and> cur < 70" | "70 \<le> cur \<and> cur < 80"
    | "80 \<le> cur \<and> cur < 90" | "90 \<le> cur"
    by linarith
  then show ?thesis
    by cases (simp_all add: clip_floor_def spec_clippedFloor_def LEVEL_ANCHORS_def)
qed

lemma clip_ceiling_spec: "clip_ceiling (Num target) = Num (spec_clippedCeiling target)"
proof -
  consider "target \<le> 1" | "1 < target \<and> target \<le> 20" | "20 < target \<and> target \<le> 40"
    | "40 < target \<and> target \<le> 50" | "50 < target \<and> target \<le> 60" | "60 < target \<and> target \<le> 70"
    | "70 < target \<and> target \<le> 80" | "80 < target \<and> target \<le> 90" | "90 < target"
    by linarith
  then show ?thesis
    by cases (simp_all add: clip_ceiling_def spec_clippedCeiling_def LEVEL_ANCHORS_def jge_def)
qed

lemma clip_anchor:
  "x \<in> set LEVEL_ANCHORS \<Longrightarrow> clip_floor (Num x) = Num x \<and> clip_ceiling (Num x) = Num x"
  by (simp add: clip_floor_def clip_ceiling_def)

text \<open>
  Claim C1. For levels \<open>cur < target\<close>, \<open>calcLevelCost\<close> is the componentwise sum of
  \<open>total_xp\<close>, \<open>total_mora\<close> and \<open>hero_wit\<close> over exactly the segments with
  \<open>to_level\<close> above the clipped floor and \<open>from_level\<close> below the clipped ceiling, the
  floor being the largest anchor at or below \<open>cur\<close> (else 1) and the ceiling the
  smallest anchor at or above \<open>target\<close> (else 90).
\<close>

theorem calcLevelCost_overlap_sum:
  assumes "cur < target"
  shows "calcLevelCost (Num cur) (Num target) =
    \<lparr>l_xp = sum_list (map total_xp (spec_segments cur target)),
     l_mora = sum_list (map total_mora (spec_segments cur target)),
     l_hero = sum_list (map hero_wit (spec_segments cur target))\<rparr>"
  using assms
  by (simp add: calcLevelCost_def level_loop_sums clip_floor_spec clip_ceiling_spec
      spec_segments_def jgt_def Let_def)

theorem calcLevelCost_overlap_sum_witness:
  "(20::int) < 50 \<and>
   calcLevelCost (Num 20) (Num 50) = \<lparr>l_xp = 1151425, l_mora = 228000, l_hero = 57\<rparr> \<and>
   map from_level (spec_segments 20 50) = [20, 40]"
  using calcLevelCost_overlap_sum [of 20 50]
  by (simp add: spec_segments_def spec_clippedFloor_def spec_clippedCeiling_def LEVEL_ANCHORS_def
      LEVEL_COSTS_def)

text \<open>
  Claim C6. A range inside one segment is charged that whole segment:
  \<open>calcLevelCost(25, 35)\<close> is the totals of the segment from 20 to 40, that is 578325
  experience, 112000 mora and 28 hero's wit; and \<open>calcLevelCost(1, 90)\<close> is the
  componentwise sum over the whole table.
\<close>

theorem sub_anchor_and_full_range:
  "calcLevelCost (Num 25) (Num 35) = \<lparr>l_xp = 578325, l_mora = 112000, l_hero = 28\<rparr> \<and>
   calcLevelCost (Num 25) (Num 35) =
     \<lparr>l_xp = total_xp (LEVEL_COSTS ! 1), l_mora = total_mora (LEVEL_COSTS ! 1),
      l_hero = hero_wit (LEVEL_COSTS ! 1)\<rparr> \<and>
   from_level (LEVEL_COSTS ! 1) = 20 \<and> to_level (LEVEL_COSTS ! 1) = 40 \<and>
   calcLevelCost (Num 1) (Num 90) =
     \<lparr>l_xp = sum_list (map total_xp LEVEL_COSTS), l_mora = sum_list (map total_mora LEVEL_COSTS),
      l_hero = sum_list (map hero_wit LEVEL_COSTS)\<rparr>"
  by (simp add: calcLevelCost_def clip_floor_def clip_ceiling_def LEVEL_ANCHORS_def
      LEVEL_COSTS_def jge_def jgt_def)

text \<open>
  No segment straddles an anchor, so the sum over the segments that overlap an interval
  splits at an anchor inside it.
\<close>

lemma split_at_boundary:
  fixes f :: "LevelCostSegment \<Rightarrow> int"
  assumes "\<forall>row \<in> set rows. from_level row < to_level row \<and> (to_level row \<le> b \<or> b \<le> from_level row)"
    and "a < b" and "b < c"
  shows "sum_list (map f (filter (\<lambda>row. a < to_level row \<and> from_level row < c) rows)) =
         sum_list (map f (filter (\<lambda>row. a < to_level row \<and> from_level row < b) rows)) +
         sum_list (map f (filter (\<lambda>row. b < to_level row \<and> from_level row < c) rows))"
  using assms by (induction rows) auto

lemma no_straddle:
  "b \<in> set LEVEL_ANCHORS \<Longrightarrow>
   \<forall>row \<in> set LEVEL_COSTS. from_level row < to_level row \<and> (to_level row \<le> b \<or> b \<le> from_level row)"
  by (auto simp add: LEVEL_ANCHORS_def LEVEL_COSTS_def)

text \<open>
  Claim C10. For anchors \<open>a < b < c\<close>, the level cost from \<open>a\<close> to \<open>c\<close> is the
  componentwise sum of the costs from \<open>a\<close> to \<open>b\<close> and from \<open>b\<close> to \<open>c\<close>.
\<close>

theorem anchor_additive:
  assumes "a \<in> set LEVEL_ANCHORS" "b \<in> set LEVEL_ANCHORS" "c \<in> set LEVEL_ANCHORS"
    and "a < b" "b < c"
  shows "l_xp (calcLevelCost (Num a) (Num c)) =
           l_xp (calcLevelCost (Num a) (Num b)) + l_xp (calcLevelCost (Num b) (Num c)) \<and>
         l_mora (calcLevelCost (Num a) (Num c)) =
           l_mora (calcLevelCost (Num a) (Num b)) + l_mora (calcLevelCost (Num b) (Num c)) \<and>
         l_hero (calcLevelCost (Num a) (Num c)) =
           l_hero (calcLevelCost (Num a) (Num b)) + l_hero (calcLevelCost (Num b) (Num c))"
proof -
  note split = split_at_boundary [OF no_straddle [OF assms(2)] assms(4) assms(5)]
  have cost: "x \<in> set LEVEL_ANCHORS \<Longrightarrow> y \<in> set LEVEL_ANCHORS \<Longrightarrow> x < y \<Longrightarrow>
      calcLevelCost (Num x) (Num y) =
        (let hit = filter (\<lambda>row. x < to_level row \<and> from_level row < y) LEVEL_COSTS
         in \<lparr>l_xp = sum_list (map total_xp hit), l_mora = sum_list (map total_mora hit),
             l_hero = sum_list (map hero_wit hit)\<rparr>)" for x y
    by (simp add: calcLevelCost_def clip_anchor level_loop_sums jgt_def Let_def)
  from assms have "a < c" by simp
  show ?thesis
    by (simp add: cost assms \<open>a < c\<close> Let_def split)
qed

theorem anchor_additive_witness:
  "(20::int) \<in> set LEVEL_ANCHORS \<and> (50::int) \<in> set LEVEL_ANCHORS \<and> (80::int) \<in> set LEVEL_ANCHORS \<and>
   l_xp (calcLevelCost (Num 20) (Num 80)) =
     l_xp (calcLevelCost (Num 20) (Num 50)) + l_xp (calcLevelCost (Num 50) (Num 80)) \<and>
   l_mora (calcLevelCost (Num 20) (Num 80)) =
     l_mora (calcLevelCost (Num 20) (Num 50)) + l_mora (calcLevelCost (Num 50) (Num 80)) \<and>
   l_hero (calcLevelCost (Num 20) (Num 80)) =
     l_hero (calcLevelCost (Num 20) (Num 50)) + l_hero (calcLevelCost (Num 50) (Num 80)) \<and>
   l_mora (calcLevelCost (Num 20) (Num 50)) = 228000 \<and>
   l_mora (calcLevelCost (Num 50) (Num 80)) = 732000"
proof -
  have m: "(20::int) \<in> set LEVEL_ANCHORS" "(50::int) \<in> set LEVEL_ANCHORS"
    "(80::int) \<in> set LEVEL_ANCHORS"
    by (simp_all add: LEVEL_ANCHORS_def)
  have v: "l_mora (calcLevelCost (Num 20) (Num 50)) = 228000"
    "l_mora (calcLevelCost (Num 50) (Num 80)) = 732000"
    by (simp_all add: calcLevelCost_def clip_floor_def clip_ceiling_def LEVEL_ANCHORS_def
        LEVEL_COSTS_def jge_def jgt_def)
  from anchor_additive [OF m] m v show ?thesis by simp
qed

section \<open>Properties of the talent cost and of the cost of a character\<close>

lemma talent_loop_sums:
  "talent_loop f t steps out =
    (let hit = filter (step_contained f t) steps
     in \<lparr>t_mora = t_mora out + sum_list (map (\<lambda>s. or0 (step_mora s)) hit),
         t_crown = t_crown out + sum_list (map (\<lambda>s. or0 (step_crown s)) hit),
         t_books = \<lparr>low = low (t_books out) + sum_list (map (\<lambda>s. or0 (book_low s)) hit),
                    mid = mid (t_books out) + sum_list (map (\<lambda>s. or0 (book_mid s)) hit),
                    high = high (t_books out) + sum_list (map (\<lambda>s. or0 (book_high s)) hit)\<rparr>\<rparr>)"
  by (induction steps arbitrary: out) (simp_all add: Let_def step_contained_def)

lemma jgt_not_jle: "jgt t f \<Longrightarrow> \<not> jle t f"
  by (cases t; cases f) (simp_all add: jgt_def)

text \<open>
  Claim C2. For ranks \<open>to > from\<close>, \<open>calcTalentCost\<close> sums into mora, crown and the three
  book tiers exactly the steps with \<open>step.from >= from\<close> and \<open>step.to <= to\<close> (each field
  read through \<open>|| 0\<close>, which leaves a count as it is); a step that is not contained
  changes nothing, and the step from 1 to 3 gives nothing to the range from 2 to 5.
\<close>

theorem calcTalentCost_contained_sum:
  "(jgt t f \<longrightarrow>
      calcTalentCost TALENT_COSTS f t =
        (let hit = filter (step_contained f t) TALENT_COSTS
         in \<lparr>t_mora = sum_list (map (\<lambda>s. or0 (step_mora s)) hit),
             t_crown = sum_list (map (\<lambda>s. or0 (step_crown s)) hit),
             t_books = \<lparr>low = sum_list (map (\<lambda>s. or0 (book_low s)) hit),
                        mid = sum_list (map (\<lambda>s. or0 (book_mid s)) hit),
                        high = sum_list (map (\<lambda>s. or0 (book_high s)) hit)\<rparr>\<rparr>)) \<and>
   step_contained f t step = (jge (step_from step) f \<and> jle (step_to step) t) \<and>
   or0 (Num n) = n \<and>
   (jgt t f \<and> \<not> step_contained f t step \<longrightarrow>
      calcTalentCost (before @ step # after) f t = calcTalentCost (before @ after) f t) \<and>
   calcTalentCost
     [\<lparr>step_from = Num 1, step_to = Num 3, book_low = Num 3, book_mid = Num 2, book_high = Num 1,
       step_mora = Num 12500, step_crown = Num 1\<rparr>] (Num 2) (Num 5) = zero_talent_cost"
proof (intro conjI impI)
  assume "jgt t f"
  then show "calcTalentCost TALENT_COSTS f t =
        (let hit = filter (step_contained f t) TALENT_COSTS
         in \<lparr>t_mora = sum_list (map (\<lambda>s. or0 (step_mora s)) hit),
             t_crown = sum_list (map (\<lambda>s. or0 (step_crown s)) hit),
             t_books = \<lparr>low = sum_list (map (\<lambda>s. or0 (book_low s)) hit),
                        mid = sum_list (map (\<lambda>s. or0 (book_mid s)) hit),
                        high = sum_list (map (\<lambda>s. or0 (book_high s)) hit)\<rparr>\<rparr>)"
    by (simp add: calcTalentCost_def talent_loop_sums jgt_not_jle zero_talent_cost_def Let_def)
next
  show "step_contained f t step = (jge (step_from step) f \<and> jle (step_to step) t)"
    by (simp add: step_contained_def)
next
  show "or0 (Num n) = n"
    by simp
next
  assume "jgt t f \<and> \<not> step_contained f t step"
  then show "calcTalentCost (before @ step # after) f t = calcTalentCost (before @ after) f t"
    by (simp add: calcTalentCost_def talent_loop_sums)
next
  show "calcTalentCost
     [\<lparr>step_from = Num 1, step_to = Num 3, book_low = Num 3, book_mid = Num 2, book_high = Num 1,
       step_mora = Num 12500, step_crown = Num 1\<rparr>] (Num 2) (Num 5) = zero_talent_cost"
    by (simp add: calcTalentCost_def jge_def)
qed

theorem calcTalentCost_contained_sum_witness:
  "jgt (Num 10) (Num 2) \<and>
   calcTalentCost sample_steps (Num 2) (Num 10) =
     \<lparr>t_mora = 717500, t_crown = 1, t_books = \<lparr>low = 0, mid = 2, high = 16\<rparr>\<rparr> \<and>
   \<not> step_contained (Num 2) (Num 10) (hd sample_steps) \<and>
   calcTalentCost sample_steps (Num 2) (Num 10) = calcTalentCost (tl sample_steps) (Num 2) (Num 10)"
  using calcTalentCost_contained_sum
    [of "Num 10" "Num 2" sample_steps "hd sample_steps" 0 "[]" "tl sample_steps"]
  by (simp add: sample_steps_def step_contained_def jge_def jgt_def calcTalentCost_def
      zero_talent_cost_def)

text \<open>
  Claim C5. When \<open>target <= curr\<close> the level cost is all zero, and when \<open>to <= from\<close>
  the talent cost is all zero: a result, not an error.
\<close>

theorem nonincreasing_range_zero:
  "(jle target cur \<longrightarrow> calcLevelCost cur target = \<lparr>l_xp = 0, l_mora = 0, l_hero = 0\<rparr>) \<and>
   (jle t f \<longrightarrow> calcTalentCost TALENT_COSTS f t =
      \<lparr>t_mora = 0, t_crown = 0, t_books = \<lparr>low = 0, mid = 0, high = 0\<rparr>\<rparr>)"
  by (simp add: calcLevelCost_def calcTalentCost_def zero_talent_cost_def)

theorem nonincreasing_range_zero_witness:
  "jle (Num 40) (Num 60) \<and> calcLevelCost (Num 60) (Num 40) = \<lparr>l_xp = 0, l_mora = 0, l_hero = 0\<rparr> \<and>
   jle (Num 6) (Num 6) \<and> calcTalentCost sample_steps (Num 6) (Num 6) =
      \<lparr>t_mora = 0, t_crown = 0, t_books = \<lparr>low = 0, mid = 0, high = 0\<rparr>\<rparr>"
  using nonincreasing_range_zero [of "Num 40" "Num 60" "Num 6" "Num 6" sample_steps]
  by simp

text \<open>
  Claim C4. \<open>calcCharacterCost\<close> takes the level cost once and the talent cost of the
  normal attack, skill and burst tracks; its mora is the level mora plus
  the three talent moras, its experience and hero's wit are those of the level cost,
  and each book tier and the crown are the sums over the three talent costs.
\<close>

theorem calcCharacterCost_sums:
  "(let lvl = calcLevelCost (levelCurrent s) (levelTarget s);
        tNA = calcTalentCost TALENT_COSTS (naCurrent s) (naTarget s);
        tSK = calcTalentCost TALENT_COSTS (skillCurrent s) (skillTarget s);
        tBR = calcTalentCost TALENT_COSTS (burstCurrent s) (burstTarget s);
        c = calcCharacterCost TALENT_COSTS s
    in mora c = l_mora lvl + t_mora tNA + t_mora tSK + t_mora tBR \<and>
       xp c = l_xp lvl \<and>
       heroBooks c = l_hero lvl \<and>
       low (c_books c) = low (t_books tNA) + low (t_books tSK) + low (t_books tBR) \<and>
       mid (c_books c) = mid (t_books tNA) + mid (t_books tSK) + mid (t_books tBR) \<and>
       high (c_books c) = high (t_books tNA) + high (t_books tSK) + high (t_books tBR) \<and>
       crown c = t_crown tNA + t_crown tSK + t_crown tBR)"
  by (simp add: calcCharacterCost_def Let_def)

section \<open>Properties of the totals\<close>

lemma refreshTotals_snoc:
  "refreshTotals tc (xs @ [x]) = totals_step tc (refreshTotals tc xs) x"
  by (simp add: refreshTotals_def)

lemma refreshTotals_fst:
  "fst (refreshTotals tc xs) =
    \<lparr>s_mora = sum_list (map (\<lambda>e. mora (calcCharacterCost tc e)) xs),
     s_xp = sum_list (map (\<lambda>e. xp (calcCharacterCost tc e)) xs),
     s_hero = sum_list (map (\<lambda>e. heroBooks (calcCharacterCost tc e)) xs),
     s_books = \<lparr>low = sum_list (map (\<lambda>e. low (c_books (calcCharacterCost tc e))) xs),
                mid = sum_list (map (\<lambda>e. mid (c_books (calcCharacterCost tc e))) xs),
                high = sum_list (map (\<lambda>e. high (c_books (calcCharacterCost tc e))) xs)\<rparr>,
     s_crown = sum_list (map (\<lambda>e. crown (calcCharacterCost tc e)) xs)\<rparr>"
proof (induction xs rule: rev_induct)
  case Nil
  show ?case by (simp add: refreshTotals_def zero_sums_def)
next
  case (snoc x xs)
  show ?case
    unfolding refreshTotals_snoc
    by (simp add: totals_step_def Let_def snoc.IH)
qed

lemma refreshTotals_snd_snoc:
  "snd (refreshTotals tc (xs @ [x])) =
     series_step (c_books (calcCharacterCost tc x)) (snd (refreshTotals tc xs)) x"
  by (simp add: refreshTotals_snoc totals_step_def Let_def)

lemma in_series_None: "talent_book e = None \<Longrightarrow> \<not> in_series k e"
  by (simp add: in_series_def)

lemma refreshTotals_series:
  "map_of (snd (refreshTotals tc xs)) k = spec_series tc xs k"
proof (induction xs rule: rev_induct)
  case Nil
  show ?case by (simp add: refreshTotals_def spec_series_def)
next
  case (snoc x xs)
  let ?st = "snd (refreshTotals tc xs)"
  let ?b = "c_books (calcCharacterCost tc x)"
  show ?case
  proof (cases "talent_book x")
    case None
    then show ?thesis
      using snoc.IH
      by (simp add: refreshTotals_snd_snoc series_step_def spec_series_def in_series_None)
  next
    case (Some tb)
    let ?sKey = "sKey_of tb (region x)"
    show ?thesis
    proof (cases "k = ?sKey")
      case False
      then have "\<not> in_series k x"
        using Some by (auto simp add: in_series_def)
      then have "spec_series tc (xs @ [x]) k = spec_series tc xs k"
        by (simp add: spec_series_def)
      moreover have "map_of (series_step ?b ?st x) k = map_of ?st k"
        using False Some
        by (simp add: series_step_def Let_def map_of_map_entry update_conv')
      ultimately show ?thesis
        using snoc.IH by (simp add: refreshTotals_snd_snoc)
    next
      case True
      then have inx: "in_series k x"
        using Some by (simp add: in_series_def)
      show ?thesis
      proof (cases "filter (in_series k) xs")
        case Nil
        then have "map_of ?st k = None"
          using snoc.IH by (simp add: spec_series_def)
        then have "map_of (series_step ?b ?st x) k = Some (add_books ?b (new_series tb (region x)))"
          using True Some
          by (simp add: series_step_def Let_def map_of_map_entry update_conv')
        moreover have "spec_series tc (xs @ [x]) k = Some (add_books ?b (new_series tb (region x)))"
          using Nil inx Some
          by (simp add: spec_series_def add_books_def new_series_def)
        ultimately show ?thesis
          by (simp add: refreshTotals_snd_snoc)
      next
        case (Cons e es)
        then have "in_series k e"
          by (metis filter_eq_ConsD)
        then obtain tbe where tbe: "talent_book e = Some tbe"
          by (auto simp add: in_series_def split: option.splits)
        from Cons tbe snoc.IH obtain v where v: "map_of ?st k = Some v"
          and vdef: "spec_series tc xs k = Some v"
          by (simp add: spec_series_def)
        then have "map_of (series_step ?b ?st x) k = Some (add_books ?b v)"
          using True Some
          by (simp add: series_step_def Let_def map_of_map_entry)
        moreover have "spec_series tc (xs @ [x]) k = Some (add_books ?b v)"
          using Cons inx tbe vdef
          by (auto simp add: spec_series_def add_books_def)
        ultimately show ?thesis
          by (simp add: refreshTotals_snd_snoc)
      qed
    qed
  qed
qed

lemma series_keys_distinct: "distinct (map fst (snd (refreshTotals tc xs)))"
proof (induction xs rule: rev_induct)
  case Nil
  show ?case by (simp add: refreshTotals_def)
next
  case (snoc x xs)
  then show ?case
    by (simp add: refreshTotals_snd_snoc series_step_def Let_def distinct_map_entry
        distinct_update split: option.splits)
qed

lemma series_only_with_book:
  "snd (refreshTotals tc xs) = snd (refreshTotals tc (filter (\<lambda>e. talent_book e \<noteq> None) xs))"
proof (induction xs rule: rev_induct)
  case Nil
  show ?case by simp
next
  case (snoc x xs)
  show ?case
  proof (cases "talent_book x")
    case None
    then show ?thesis
      using snoc.IH by (simp add: refreshTotals_snd_snoc series_step_def)
  next
    case (Some tb)
    then show ?thesis
      using snoc.IH by (simp add: refreshTotals_snd_snoc)
  qed
qed

text \<open>
  Claim C3. The global sums of \<open>refreshTotals\<close> over any list are the componentwise sums
  of \<open>calcCharacterCost\<close> over its entries, an entry that occurs twice counting
  twice; over the empty list the sums are all zero and the series object is empty.
\<close>

theorem refreshTotals_global_sums:
  "fst (refreshTotals TALENT_COSTS lst) =
    \<lparr>s_mora = sum_list (map (\<lambda>e. mora (calcCharacterCost TALENT_COSTS e)) lst),
     s_xp = sum_list (map (\<lambda>e. xp (calcCharacterCost TALENT_COSTS e)) lst),
     s_hero = sum_list (map (\<lambda>e. heroBooks (calcCharacterCost TALENT_COSTS e)) lst),
     s_books = \<lparr>low = sum_list (map (\<lambda>e. low (c_books (calcCharacterCost TALENT_COSTS e))) lst),
                mid = sum_list (map (\<lambda>e. mid (c_books (calcCharacterCost TALENT_COSTS e))) lst),
                high = sum_list (map (\<lambda>e. high (c_books (calcCharacterCost TALENT_COSTS e))) lst)\<rparr>,
     s_crown = sum_list (map (\<lambda>e. crown (calcCharacterCost TALENT_COSTS e)) lst)\<rparr> \<and>
   refreshTotals TALENT_COSTS [] =
    (\<lparr>s_mora = 0, s_xp = 0, s_hero = 0, s_books = \<lparr>low = 0, mid = 0, high = 0\<rparr>, s_crown = 0\<rparr>, []) \<and>
   s_mora (fst (refreshTotals TALENT_COSTS [e, e\<lparr>uid := u\<rparr>])) =
     2 * mora (calcCharacterCost TALENT_COSTS e) \<and>
   s_mora (fst (refreshTotals sample_steps [sample_entry, sample_entry])) = 4837000"
proof (intro conjI)
  show "refreshTotals TALENT_COSTS [] =
    (\<lparr>s_mora = 0, s_xp = 0, s_hero = 0, s_books = \<lparr>low = 0, mid = 0, high = 0\<rparr>, s_crown = 0\<rparr>, [])"
    by (simp add: refreshTotals_def zero_sums_def)
  show "s_mora (fst (refreshTotals TALENT_COSTS [e, e\<lparr>uid := u\<rparr>])) =
     2 * mora (calcCharacterCost TALENT_COSTS e)"
    by (simp add: refreshTotals_fst calcCharacterCost_def)
  have "mora (calcCharacterCost sample_steps sample_entry) = 2418500"
    by code_simp
  then show "s_mora (fst (refreshTotals sample_steps [sample_entry, sample_entry])) = 4837000"
    by (simp add: refreshTotals_fst)
qed (rule refreshTotals_fst)

text \<open>
  The key of a bucket is the series key, the label and the region joined by \<open>@@\<close>. Where
  neither the series key nor the label holds an \<open>@\<close>, as in every series of
  \<open>TALENT_BOOKS\<close>, two keys are equal only when the three parts are.
\<close>

lemma first_separator:
  "x \<notin> set xs \<Longrightarrow> x \<notin> set xs' \<Longrightarrow> (xs @ x # ys = xs' @ x # ys') = (xs = xs' \<and> ys = ys')"
proof (induction xs arbitrary: xs')
  case Nil
  then show ?case by (cases xs') auto
next
  case (Cons a xs)
  then show ?case by (cases xs') auto
qed

lemma sKey_of_inject:
  assumes "CHR ''@'' \<notin> set (tb_key a)" "CHR ''@'' \<notin> set (tb_name_kr a)"
    and "CHR ''@'' \<notin> set (tb_key b)" "CHR ''@'' \<notin> set (tb_name_kr b)"
  shows "(sKey_of a r = sKey_of b r') =
         (tb_key a = tb_key b \<and> tb_name_kr a = tb_name_kr b \<and> or_empty r = or_empty r')"
  by (simp add: sKey_of_def first_separator [OF assms(1) assms(3)]
      first_separator [OF assms(2) assms(4)])

text \<open>
  Claim C7. The bucket of a series key holds the sums, as teachings, guide and
  philosophies, of the low, mid and high books of the entries with a series of that
  key, no key has two buckets, and these books are the sums over the three talent
  tracks. An entry without a series leaves the series object as it is, while its cost
  is added to the global sums.
\<close>

theorem series_totals_by_book:
  "map_of (snd (refreshTotals TALENT_COSTS lst)) k = spec_series TALENT_COSTS lst k \<and>
   distinct (map fst (snd (refreshTotals TALENT_COSTS lst))) \<and>
   (talent_book e = None \<longrightarrow>
      snd (refreshTotals TALENT_COSTS (before @ e # after)) =
      snd (refreshTotals TALENT_COSTS (before @ after))) \<and>
   s_mora (fst (refreshTotals TALENT_COSTS (before @ e # after))) =
     s_mora (fst (refreshTotals TALENT_COSTS (before @ after))) + mora (calcCharacterCost TALENT_COSTS e) \<and>
   s_xp (fst (refreshTotals TALENT_COSTS (before @ e # after))) =
     s_xp (fst (refreshTotals TALENT_COSTS (before @ after))) + xp (calcCharacterCost TALENT_COSTS e) \<and>
   s_hero (fst (refreshTotals TALENT_COSTS (before @ e # after))) =
     s_hero (fst (refreshTotals TALENT_COSTS (before @ after))) + heroBooks (calcCharacterCost TALENT_COSTS e) \<and>
   s_crown (fst (refreshTotals TALENT_COSTS (before @ e # after))) =
     s_crown (fst (refreshTotals TALENT_COSTS (before @ after))) + crown (calcCharacterCost TALENT_COSTS e) \<and>
   s_books (fst (refreshTotals TALENT_COSTS (before @ e # after))) =
     \<lparr>low = low (s_books (fst (refreshTotals TALENT_COSTS (before @ after))))
             + low (c_books (calcCharacterCost TALENT_COSTS e)),
      mid = mid (s_books (fst (refreshTotals TALENT_COSTS (before @ after))))
             + mid (c_books (calcCharacterCost TALENT_COSTS e)),
      high = high (s_books (fst (refreshTotals TALENT_COSTS (before @ after))))
             + high (c_books (calcCharacterCost TALENT_COSTS e))\<rparr> \<and>
   c_books (calcCharacterCost TALENT_COSTS e) =
     (let tNA = calcTalentCost TALENT_COSTS (naCurrent e) (naTarget e);
          tSK = calcTalentCost TALENT_COSTS (skillCurrent e) (skillTarget e);
          tBR = calcTalentCost TALENT_COSTS (burstCurrent e) (burstTarget e)
      in \<lparr>low = low (t_books tNA) + low (t_books tSK) + low (t_books tBR),
          mid = mid (t_books tNA) + mid (t_books tSK) + mid (t_books tBR),
          high = high (t_books tNA) + high (t_books tSK) + high (t_books tBR)\<rparr>)"
proof (intro conjI impI)
  show "map_of (snd (refreshTotals TALENT_COSTS lst)) k = spec_series TALENT_COSTS lst k"
    by (rule refreshTotals_series)
next
  show "distinct (map fst (snd (refreshTotals TALENT_COSTS lst)))"
    by (rule series_keys_distinct)
next
  assume "talent_book e = None"
  then have "filter (\<lambda>e. talent_book e \<noteq> None) (before @ e # after) =
             filter (\<lambda>e. talent_book e \<noteq> None) (before @ after)"
    by simp
  then show "snd (refreshTotals TALENT_COSTS (before @ e # after)) =
             snd (refreshTotals TALENT_COSTS (before @ after))"
    by (metis series_only_with_book)
next
  show "c_books (calcCharacterCost TALENT_COSTS e) =
     (let tNA = calcTalentCost TALENT_COSTS (naCurrent e) (naTarget e);
          tSK = calcTalentCost TALENT_COSTS (skillCurrent e) (skillTarget e);
          tBR = calcTalentCost TALENT_COSTS (burstCurrent e) (burstTarget e)
      in \<lparr>low = low (t_books tNA) + low (t_books tSK) + low (t_books tBR),
          mid = mid (t_books tNA) + mid (t_books tSK) + mid (t_books tBR),
          high = high (t_books tNA) + high (t_books tSK) + high (t_books tBR)\<rparr>)"
    by (simp add: calcCharacterCost_def Let_def)
qed (simp_all add: refreshTotals_fst)

theorem series_totals_by_book_witness:
  "talent_book sample_plain = None \<and>
   snd (refreshTotals sample_steps ([sample_entry] @ sample_plain # [])) =
     snd (refreshTotals sample_steps ([sample_entry] @ [])) \<and>
   map_option st_sums
     (map_of (snd (refreshTotals sample_steps [sample_entry, sample_plain]))
        (''freedom@@'' @ name_freedom @ ''@@mond'')) =
     Some \<lparr>teachings = 6, guide = 2, philosophies = 16\<rparr> \<and>
   s_books (fst (refreshTotals sample_steps ([sample_entry] @ sample_plain # []))) =
     \<lparr>low = 12, mid = 4, high = 32\<rparr>"
proof -
  have none: "talent_book sample_plain = None"
    by code_simp
  have bucket: "map_option st_sums (spec_series sample_steps [sample_entry, sample_plain]
      (''freedom@@'' @ name_freedom @ ''@@mond'')) =
      Some \<lparr>teachings = 6, guide = 2, philosophies = 16\<rparr>"
    by code_simp
  have first: "s_books (fst (refreshTotals sample_steps ([sample_entry] @ []))) =
      \<lparr>low = 6, mid = 2, high = 16\<rparr>"
    by code_simp
  have plain: "c_books (calcCharacterCost sample_steps sample_plain) =
      \<lparr>low = 6, mid = 2, high = 16\<rparr>"
    by code_simp
  note t = series_totals_by_book [of sample_steps "[sample_entry, sample_plain]"
      "''freedom@@'' @ name_freedom @ ''@@mond''" sample_plain "[sample_entry]" "[]"]
  have 1: "map_of (snd (refreshTotals sample_steps [sample_entry, sample_plain]))
      (''freedom@@'' @ name_freedom @ ''@@mond'') =
      spec_series sample_steps [sample_entry, sample_plain] (''freedom@@'' @ name_freedom @ ''@@mond'')"
    using t by (rule conjunct1)
  have 2: "snd (refreshTotals sample_steps ([sample_entry] @ sample_plain # [])) =
      snd (refreshTotals sample_steps ([sample_entry] @ []))"
    using t [THEN conjunct2, THEN conjunct2, THEN conjunct1] none by (rule mp)
  have 3: "s_books (fst (refreshTotals sample_steps ([sample_entry] @ sample_plain # []))) =
      \<lparr>low = low (s_books (fst (refreshTotals sample_steps ([sample_entry] @ []))))
              + low (c_books (calcCharacterCost sample_steps sample_plain)),
       mid = mid (s_books (fst (refreshTotals sample_steps ([sample_entry] @ []))))
              + mid (c_books (calcCharacterCost sample_steps sample_plain)),
       high = high (s_books (fst (refreshTotals sample_steps ([sample_entry] @ []))))
              + high (c_books (calcCharacterCost sample_steps sample_plain))\<rparr>"
    using t [THEN conjunct2, THEN conjunct2, THEN conjunct2, THEN conjunct2, THEN conjunct2,
        THEN conjunct2, THEN conjunct2, THEN conjunct1] .
  have 4: "s_books (fst (refreshTotals sample_steps ([sample_entry] @ sample_plain # []))) =
      \<lparr>low = 12, mid = 4, high = 32\<rparr>"
    unfolding 3 first plain by simp
  from none 1 2 4 bucket show ?thesis
    by (simp only: simp_thms)
qed

section \<open>Properties of the series mapping\<close>




text \<open>
  The test of \<open>talent_book_of\<close> never reads a member of the prototype: the key it looks up
  is a value of the alias table, the text of a prototype member, or a string that
  names no such member.
\<close>

lemma to_key_alias_region: "to_key (alias_of REGION_ALIAS raw) \<notin> set OBJECT_PROTOTYPE_KEYS"
  by (auto simp add: alias_of_def obj_get_def REGION_ALIAS_def OBJECT_PROTOTYPE_KEYS_def
      split: option.splits if_splits)

lemma to_key_alias_day: "to_key (alias_of DAY_ALIAS raw) \<notin> set OBJECT_PROTOTYPE_KEYS"
  by (auto simp add: alias_of_def obj_get_def DAY_ALIAS_def OBJECT_PROTOTYPE_KEYS_def
      split: option.splits if_splits)

lemma to_key_alias_own:
  "obj_get TALENT_BOOKS (to_key (alias_of REGION_ALIAS r)) \<noteq> Inherited m \<and>
   obj_get days (to_key (alias_of DAY_ALIAS d)) \<noteq> Inherited m"
  using to_key_alias_region [of r] to_key_alias_day [of d]
  by (simp add: obj_get_def split: option.splits)



section \<open>Properties of the rows of the cost table\<close>






end
